theory Spec2Isabelle
  imports Complex_Main
begin

text \<open>
  The order reconciliation and the balance ledger of gophermart-bonus: the order and
  withdrawal repositories over an explicit database with driver faults, the client of
  the accrual system, the service routine that reconciles one order, and the handler
  that creates a withdrawal.
\<close>

section \<open>Errors, results and time\<close>

text \<open>
  The sentinel errors of the packages \<^verbatim>\<open>repositories\<close> (order, withdrawal and accrual
  repositories), the two errors of \<^verbatim>\<open>database/sql\<close> the code can meet, the two errors
  of \<^verbatim>\<open>strconv.Atoi\<close>, and the failures of the database driver and of the HTTP client.
  A driver failure is either a \<^verbatim>\<open>pgconn.PgError\<close> whose code is an integrity
  constraint violation, or anything else.
\<close>

datatype db_fault = IntegrityConstraintViolation | ConnectionFailure

datatype error =
    ErrInvalidStatus
  | ErrWrongMethodUsed
  | ErrNotEnoughPoints
  | ErrWithdrawalOrderAlreadyExists
  | ErrTooManyRequests
  | ErrOrderNotRegistered
  | ErrExternalAccrualServiceNotAvailable
  | ErrUnexpectedBehaviour
  | ErrNoRows
  | ErrTxDone
  | DriverError db_fault
  | ErrSyntax
  | ErrRange
  | TransportError

text \<open>
  A Go call returns its value, panics, or ends the process: \<^verbatim>\<open>logger.Log.Fatal\<close>
  (zap) writes its message and calls \<^verbatim>\<open>os.Exit(1)\<close>, so the \<^verbatim>\<open>return\<close> after it
  is never reached.
\<close>

datatype 'a go_result = Panic | Exit | Return 'a

text \<open>
  \<^verbatim>\<open>time.Time\<close> and \<^verbatim>\<open>time.Duration\<close> in nanoseconds; the zero \<^verbatim>\<open>time.Time\<close>
  is \<open>0\<close>. Amounts (\<^verbatim>\<open>float64\<close> in Go) are exact reals: rounding is not modelled.
\<close>

type_synonym Time = int
type_synonym Duration = int

definition IsZero :: "Time \<Rightarrow> bool" where
  "IsZero t = (t = 0)"

section \<open>The database\<close>

record Order =
  ID :: nat
  UserID :: nat
  Number :: string
  Status :: string
  CreatedAt :: Time

abbreviation OrderStatusNew :: string where "OrderStatusNew \<equiv> ''NEW''"
abbreviation OrderStatusProcessing :: string where "OrderStatusProcessing \<equiv> ''PROCESSING''"
abbreviation OrderStatusProcessed :: string where "OrderStatusProcessed \<equiv> ''PROCESSED''"
abbreviation OrderStatusInvalid :: string where "OrderStatusInvalid \<equiv> ''INVALID''"

definition AllOrderStatuses :: "string list" where
  "AllOrderStatuses =
     [OrderStatusNew, OrderStatusProcessing, OrderStatusProcessed, OrderStatusInvalid]"

text \<open>
  The tables the modelled statements touch: \<^verbatim>\<open>"order"\<close> keyed by id, \<^verbatim>\<open>"accrual"\<close>,
  \<^verbatim>\<open>"user-balance"\<close> keyed by user id, and \<^verbatim>\<open>withdrawal\<close>. The column
  \<^verbatim>\<open>created_at\<close> of a withdrawal is filled by the database and read by none of the
  modelled functions.
\<close>

record accrual_row =
  accrual_amount :: real
  accrual_user_id :: nat
  accrual_order_id :: nat

record balance_row =
  balance :: real
  withdrawals_sum :: real

record withdrawal_row =
  withdrawal_id :: nat
  withdrawal_amount :: real
  withdrawal_user_id :: nat
  withdrawal_order_number :: string

record database =
  order_table :: "nat \<rightharpoonup> Order"
  accrual_table :: "accrual_row list"
  user_balance_table :: "nat \<rightharpoonup> balance_row"
  withdrawal_table :: "withdrawal_row list"

text \<open>
  Every call into \<^verbatim>\<open>database/sql\<close> can fail. A fault schedule says, for each step of
  one repository call, whether the driver fails there and how.
\<close>

datatype stmt =
    UpdateStatus | InsertAccrual | CreditBalance
  | SelectBalance | DebitBalance | InsertWithdrawal

datatype db_step = BeginTx | Prepare stmt | Exec stmt | Query stmt | Scan stmt | Commit | Rollback

type_synonym faults = "db_step \<Rightarrow> db_fault option"

definition no_faults :: faults where
  "no_faults = (\<lambda>_. None)"

text \<open>
  How a transaction of one repository call ended. The second component of a repository
  call's result is the committed database: the writes of a transaction reach it at a
  successful \<^verbatim>\<open>Commit\<close> only.
\<close>

datatype tx_end = NoTx | Committed | CommitFailed | RolledBack | RollbackFailed | LeftOpen

text \<open>\<^verbatim>\<open>UPDATE "order" SET status = $1 WHERE id = $2\<close>\<close>

definition sql_update_status :: "database \<Rightarrow> string \<Rightarrow> nat \<Rightarrow> database" where
  "sql_update_status db status orderID =
     (case order_table db orderID of
        None \<Rightarrow> db
      | Some row \<Rightarrow> db\<lparr>order_table := (order_table db)(orderID \<mapsto> row\<lparr>Status := status\<rparr>)\<rparr>)"

text \<open>\<^verbatim>\<open>INSERT INTO "accrual" (amount, user_id, order_id) VALUES ($1, $2, $3)\<close>\<close>

definition sql_insert_accrual :: "database \<Rightarrow> real \<Rightarrow> nat \<Rightarrow> nat \<Rightarrow> database" where
  "sql_insert_accrual db amount userID orderID =
     db\<lparr>accrual_table := accrual_table db @
        [\<lparr>accrual_amount = amount, accrual_user_id = userID, accrual_order_id = orderID\<rparr>]\<rparr>"

text \<open>\<^verbatim>\<open>UPDATE "user-balance" SET balance = balance + $1 WHERE user_id = $2\<close>\<close>

definition sql_credit_balance :: "database \<Rightarrow> real \<Rightarrow> nat \<Rightarrow> database" where
  "sql_credit_balance db amount userID =
     (case user_balance_table db userID of
        None \<Rightarrow> db
      | Some row \<Rightarrow>
          db\<lparr>user_balance_table :=
               (user_balance_table db)(userID \<mapsto> row\<lparr>balance := balance row + amount\<rparr>)\<rparr>)"

text \<open>
  \<^verbatim>\<open>UPDATE "user-balance" SET balance = balance - $1,
  withdrawals_sum = withdrawals_sum + $1 WHERE user_id = $2\<close>
\<close>

definition sql_debit_balance :: "database \<Rightarrow> real \<Rightarrow> nat \<Rightarrow> database" where
  "sql_debit_balance db amount userID =
     (case user_balance_table db userID of
        None \<Rightarrow> db
      | Some row \<Rightarrow>
          db\<lparr>user_balance_table :=
               (user_balance_table db)(userID \<mapsto>
                  row\<lparr>balance := balance row - amount,
                      withdrawals_sum := withdrawals_sum row + amount\<rparr>)\<rparr>)"

text \<open>
  \<^verbatim>\<open>INSERT INTO withdrawal (amount, user_id, withdrawal_order_number)
  VALUES ($1, $2, $3) RETURNING id\<close>; the id column is a sequence, modelled by the
  position of the row.
\<close>

definition next_withdrawal_id :: "database \<Rightarrow> nat" where
  "next_withdrawal_id db = Suc (length (withdrawal_table db))"

definition sql_insert_withdrawal :: "database \<Rightarrow> real \<Rightarrow> nat \<Rightarrow> string \<Rightarrow> database" where
  "sql_insert_withdrawal db amount userID number =
     db\<lparr>withdrawal_table := withdrawal_table db @
        [\<lparr>withdrawal_id = next_withdrawal_id db, withdrawal_amount = amount,
          withdrawal_user_id = userID, withdrawal_order_number = number\<rparr>]\<rparr>"

text \<open>
  Modelled from the spec: the schema of the \<^verbatim>\<open>withdrawal\<close> table (the migrations are
  not among the sources). A withdrawal's order number is "unique across all withdrawals",
  so the insert of a number already present is an integrity constraint violation.
\<close>

definition withdrawal_number_used :: "database \<Rightarrow> string \<Rightarrow> bool" where
  "withdrawal_number_used db number =
     (number \<in> set (map withdrawal_order_number (withdrawal_table db)))"

section \<open>OrderRepository\<close>

text \<open>
  The block every failing step of a transaction repeats: roll back; if the rollback
  fails its error is returned, otherwise the step's error.
\<close>

definition rollback_return :: "faults \<Rightarrow> database \<Rightarrow> error \<Rightarrow> error \<times> database \<times> tx_end" where
  "rollback_return f db err =
     (case f Rollback of
        Some txErr \<Rightarrow> (DriverError txErr, db, RollbackFailed)
      | None \<Rightarrow> (err, db, RolledBack))"

definition OrderRepository_UpdateOrderStatus ::
  "faults \<Rightarrow> database \<Rightarrow> nat \<Rightarrow> string \<Rightarrow> error option \<times> database" where
  "OrderRepository_UpdateOrderStatus f db orderID status =
     (if status \<notin> set AllOrderStatuses then (Some ErrInvalidStatus, db)
      else if status = OrderStatusProcessed then (Some ErrWrongMethodUsed, db)
      else
        (case f (Prepare UpdateStatus) of
           Some err \<Rightarrow> (Some (DriverError err), db)
         | None \<Rightarrow>
        (case f (Exec UpdateStatus) of
           Some err \<Rightarrow> (Some (DriverError err), db)
         | None \<Rightarrow> (None, sql_update_status db status orderID))))"

definition tx_failed :: "error \<times> database \<times> tx_end \<Rightarrow> error option \<times> database \<times> tx_end" where
  "tx_failed r = (case r of (err, db, t) \<Rightarrow> (Some err, db, t))"

definition OrderRepository_UpdateOrderAndPasteAccrual ::
  "faults \<Rightarrow> database \<Rightarrow> Order \<Rightarrow> string \<Rightarrow> real \<Rightarrow> error option \<times> database \<times> tx_end" where
  "OrderRepository_UpdateOrderAndPasteAccrual f db order status amount =
     (if status \<noteq> OrderStatusProcessed then (Some ErrWrongMethodUsed, db, NoTx)
      else
        (case f BeginTx of
           Some txErr \<Rightarrow> (Some (DriverError txErr), db, NoTx)
         | None \<Rightarrow>
        (case f (Prepare UpdateStatus) of
           Some err \<Rightarrow> tx_failed (rollback_return f db (DriverError err))
         | None \<Rightarrow>
        (case f (Exec UpdateStatus) of
           Some err \<Rightarrow> tx_failed (rollback_return f db (DriverError err))
         | None \<Rightarrow>
        (let tx1 = sql_update_status db status (ID order) in
        (case f (Prepare InsertAccrual) of
           Some err \<Rightarrow> tx_failed (rollback_return f db (DriverError err))
         | None \<Rightarrow>
        (case f (Exec InsertAccrual) of
           Some err \<Rightarrow> tx_failed (rollback_return f db (DriverError err))
         | None \<Rightarrow>
        (let tx2 = sql_insert_accrual tx1 amount (UserID order) (ID order) in
        (case f (Prepare CreditBalance) of
           Some err \<Rightarrow> tx_failed (rollback_return f db (DriverError err))
         | None \<Rightarrow>
        (case f (Exec CreditBalance) of
           Some err \<Rightarrow> tx_failed (rollback_return f db (DriverError err))
         | None \<Rightarrow>
        (let tx3 = sql_credit_balance tx2 amount (UserID order) in
        (case f Commit of
           Some txErr \<Rightarrow> (Some (DriverError txErr), db, CommitFailed)
         | None \<Rightarrow> (None, tx3, Committed)))))))))))))"

text \<open>
  The steps of the transaction of \<^verbatim>\<open>UpdateOrderAndPasteAccrual\<close>, in the order of the
  source; the combined update goes through when the driver fails at none of them. The
  plain status update has two steps.
\<close>

definition paste_accrual_steps :: "db_step list" where
  "paste_accrual_steps =
     [BeginTx, Prepare UpdateStatus, Exec UpdateStatus, Prepare InsertAccrual,
      Exec InsertAccrual, Prepare CreditBalance, Exec CreditBalance, Commit]"

definition combined_update_ok :: "faults \<Rightarrow> bool" where
  "combined_update_ok f = list_all (\<lambda>step. f step = None) paste_accrual_steps"


section \<open>WithdrawalRepository\<close>

definition tx_error ::
  "error \<times> database \<times> tx_end \<Rightarrow> (error + nat) go_result \<times> database \<times> tx_end" where
  "tx_error r = (case r of (err, db, t) \<Rightarrow> (Return (Inl err), db, t))"

text \<open>
  The rollback block of most steps of \<^verbatim>\<open>Create\<close>: a failed rollback is logged with
  \<^verbatim>\<open>Fatal\<close>, which ends the process.
\<close>

definition rollback_or_exit ::
  "faults \<Rightarrow> database \<Rightarrow> error \<Rightarrow> (error + nat) go_result \<times> database \<times> tx_end" where
  "rollback_or_exit f db err =
     (case f Rollback of
        Some txErr \<Rightarrow> (Exit, db, RollbackFailed)
      | None \<Rightarrow> (Return (Inl err), db, RolledBack))"

text \<open>
  The balance the \<^verbatim>\<open>SELECT ... FOR UPDATE\<close> row scans into: the driver may fail at
  the scan, and a user without a balance row gives \<^verbatim>\<open>sql.ErrNoRows\<close>.
\<close>

definition scan_balance :: "faults \<Rightarrow> database \<Rightarrow> nat \<Rightarrow> error + real" where
  "scan_balance f db userID =
     (case f (Scan SelectBalance) of
        Some err \<Rightarrow> Inl (DriverError err)
      | None \<Rightarrow>
          (case user_balance_table db userID of
             None \<Rightarrow> Inl ErrNoRows
           | Some row \<Rightarrow> Inr (balance row)))"

text \<open>
  \<^verbatim>\<open>row.Err()\<close> of the insert: the driver's failure, or the violation of the unique
  order number (the driver reads the first row when the query is issued).
\<close>

definition insert_row_err :: "faults \<Rightarrow> database \<Rightarrow> string \<Rightarrow> db_fault option" where
  "insert_row_err f tx number =
     (case f (Query InsertWithdrawal) of
        Some err \<Rightarrow> Some err
      | None \<Rightarrow>
          if withdrawal_number_used tx number then Some IntegrityConstraintViolation else None)"

text \<open>
  \<^verbatim>\<open>Create\<close>. A failed rollback after the first \<^verbatim>\<open>PrepareContext\<close> is returned; a
  failed commit is logged with \<^verbatim>\<open>Fatal\<close>. Three places differ from the repeated
  rollback block, as in the source:
  a failed \<^verbatim>\<open>PrepareContext\<close> of the insert returns without a rollback; after
  \<^verbatim>\<open>row.Err() != nil\<close> and a successful rollback there is no return, so \<^verbatim>\<open>Scan\<close>
  reports the same error again, and for an error that is no integrity violation the
  second \<^verbatim>\<open>Rollback\<close> on the finished transaction gives \<^verbatim>\<open>sql.ErrTxDone\<close>; an
  integrity violation met at \<^verbatim>\<open>Scan\<close> returns without a rollback.
\<close>

definition WithdrawalRepository_Create ::
  "faults \<Rightarrow> database \<Rightarrow> string \<Rightarrow> real \<Rightarrow> nat \<Rightarrow>
     (error + nat) go_result \<times> database \<times> tx_end" where
  "WithdrawalRepository_Create f db number amount userID =
     (case f BeginTx of
        Some txErr \<Rightarrow> (Return (Inl (DriverError txErr)), db, NoTx)
      | None \<Rightarrow>
     (case f (Prepare SelectBalance) of
        Some err \<Rightarrow> tx_error (rollback_return f db (DriverError err))
      | None \<Rightarrow>
     (case f (Query SelectBalance) of
        Some err \<Rightarrow> rollback_or_exit f db (DriverError err)
      | None \<Rightarrow>
     (case scan_balance f db userID of
        Inl err \<Rightarrow> rollback_or_exit f db err
      | Inr bal \<Rightarrow>
     (if amount > bal then rollback_or_exit f db ErrNotEnoughPoints
      else
     (case f (Prepare DebitBalance) of
        Some err \<Rightarrow> rollback_or_exit f db (DriverError err)
      | None \<Rightarrow>
     (case f (Exec DebitBalance) of
        Some err \<Rightarrow> rollback_or_exit f db (DriverError err)
      | None \<Rightarrow>
     (let tx1 = sql_debit_balance db amount userID in
     (case f (Prepare InsertWithdrawal) of
        Some err \<Rightarrow> (Return (Inl (DriverError err)), db, LeftOpen)
      | None \<Rightarrow>
     (case insert_row_err f tx1 number of
        Some rowErr \<Rightarrow>
          (case f Rollback of
             Some txErr \<Rightarrow> (Exit, db, RollbackFailed)
           | None \<Rightarrow>
               if rowErr = IntegrityConstraintViolation
               then (Return (Inl ErrWithdrawalOrderAlreadyExists), db, RolledBack)
               else (Return (Inl ErrTxDone), db, RolledBack))
      | None \<Rightarrow>
     (case f (Scan InsertWithdrawal) of
        Some err \<Rightarrow>
          if err = IntegrityConstraintViolation
          then (Return (Inl ErrWithdrawalOrderAlreadyExists), db, LeftOpen)
          else tx_error (rollback_return f db (DriverError err))
      | None \<Rightarrow>
     (let tx2 = sql_insert_withdrawal tx1 amount userID number in
     (case f Commit of
        Some txErr \<Rightarrow> (Exit, db, CommitFailed)
      | None \<Rightarrow> (Return (Inr (next_withdrawal_id tx1)), tx2, Committed))))))))))))))"

section \<open>WithdrawalService\<close>

definition WithdrawalService_Create ::
  "faults \<Rightarrow> database \<Rightarrow> string \<Rightarrow> real \<Rightarrow> nat \<Rightarrow> (error + nat) go_result \<times> database" where
  "WithdrawalService_Create f db number amount userID =
     (case WithdrawalRepository_Create f db number amount userID of
        (Return (Inl err), db', _) \<Rightarrow> (Return (Inl err), db')
      | (Return (Inr createdWithdrawalID), db', _) \<Rightarrow> (Return (Inr createdWithdrawalID), db')
      | (Exit, db', _) \<Rightarrow> (Exit, db')
      | (Panic, db', _) \<Rightarrow> (Panic, db'))"

section \<open>strconv.Atoi\<close>

text \<open>
  \<^verbatim>\<open>strconv.Atoi\<close> on a 64-bit platform: an optional sign, then at least one decimal
  digit and nothing else; a value outside the range of \<^verbatim>\<open>int\<close> is a range error.
\<close>

definition digit_of :: "char \<Rightarrow> nat option" where
  "digit_of c =
     (let n = (of_char c :: nat) in if 48 \<le> n \<and> n \<le> 57 then Some (n - 48) else None)"

fun parse_digits :: "nat \<Rightarrow> string \<Rightarrow> nat option" where
  "parse_digits acc [] = Some acc"
| "parse_digits acc (c # cs) =
     (case digit_of c of None \<Rightarrow> None | Some d \<Rightarrow> parse_digits (acc * 10 + d) cs)"

definition Atoi :: "string \<Rightarrow> error + int" where
  "Atoi s =
     (case s of
        [] \<Rightarrow> Inl ErrSyntax
      | c # rest \<Rightarrow>
          (let neg = (c = CHR ''-'');
               ds = (if c = CHR ''-'' \<or> c = CHR ''+'' then rest else s)
           in if ds = [] then Inl ErrSyntax
              else
                (case parse_digits 0 ds of
                   None \<Rightarrow> Inl ErrSyntax
                 | Some n \<Rightarrow>
                     (let v = (if neg then - int n else int n)
                      in if v < - (2 ^ 63) \<or> 2 ^ 63 \<le> v then Inl ErrRange else Inr v))))"

section \<open>AccrualRepository\<close>

record ExternalOrder =
  ext_Order :: string
  ext_Status :: string
  ext_Accrual :: real

abbreviation ExternalOrderStatusRegistered :: string where
  "ExternalOrderStatusRegistered \<equiv> ''REGISTERED''"
abbreviation ExternalOrderStatusProcessing :: string where
  "ExternalOrderStatusProcessing \<equiv> ''PROCESSING''"
abbreviation ExternalOrderStatusProcessed :: string where
  "ExternalOrderStatusProcessed \<equiv> ''PROCESSED''"
abbreviation ExternalOrderStatusInvalid :: string where
  "ExternalOrderStatusInvalid \<equiv> ''INVALID''"

text \<open>\<^verbatim>\<open>ExternalOrder{}\<close>\<close>

definition ExternalOrder_zero :: ExternalOrder where
  "ExternalOrder_zero = \<lparr>ext_Order = [], ext_Status = [], ext_Accrual = 0\<rparr>"

text \<open>
  The repository's state: the configured address and the cooldown deadline (the HTTP
  client has no state the code reads).
\<close>

record AccrualRepository =
  AccrualSystemAddress :: string
  retryAfter :: Time

definition NewAccrualRepository :: "string \<Rightarrow> AccrualRepository" where
  "NewAccrualRepository address = \<lparr>AccrualSystemAddress = address, retryAfter = 0\<rparr>"

text \<open>
  What \<^verbatim>\<open>client.R().SetResult(&order).Get(url)\<close> gives: an error, a nil response
  without an error, or a response with its status code, its headers and the value the
  client decoded into \<^verbatim>\<open>order\<close>.
\<close>

datatype http_result =
    RequestFailed
  | NilResponse
  | Response nat "string \<rightharpoonup> string list" ExternalOrder

definition AccrualRepository_CanDoRequest :: "AccrualRepository \<Rightarrow> Time \<Rightarrow> bool" where
  "AccrualRepository_CanDoRequest a now =
     (if IsZero (retryAfter a) then True
      else if retryAfter a < now then True
      else False)"

text \<open>
  \<^verbatim>\<open>time.Until\<close>: the difference of two times as a \<^verbatim>\<open>Duration\<close> (an
  \<^verbatim>\<open>int64\<close>), which saturates at the largest and the smallest \<^verbatim>\<open>Duration\<close>.
\<close>

definition Until :: "Time \<Rightarrow> Time \<Rightarrow> Duration" where
  "Until t now =
     (let d = t - now
      in if 2 ^ 63 - 1 < d then 2 ^ 63 - 1 else if d < - (2 ^ 63) then - (2 ^ 63) else d)"

text \<open>
  \<^verbatim>\<open>time.Duration(time.Until(a.retryAfter).Seconds())\<close>: the number of seconds until
  the deadline, truncated towards zero, taken as a count of nanoseconds.
\<close>

definition seconds_truncated :: "Duration \<Rightarrow> int" where
  "seconds_truncated d =
     (if 0 \<le> d then d div 1000000000 else - ((- d) div 1000000000))"

definition AccrualRepository_GetSleepDuration :: "AccrualRepository \<Rightarrow> Time \<Rightarrow> Duration" where
  "AccrualRepository_GetSleepDuration a now =
     (if IsZero (retryAfter a) then 0 else seconds_truncated (Until (retryAfter a) now))"

text \<open>\<^verbatim>\<open>response.Header()["Retry-After"]\<close>: a missing key gives the nil slice.\<close>

definition header_values :: "(string \<rightharpoonup> string list) \<Rightarrow> string \<Rightarrow> string list" where
  "header_values h k = (case h k of None \<Rightarrow> [] | Some vs \<Rightarrow> vs)"

text \<open>
  The body of \<^verbatim>\<open>GetOrder\<close>, run on the receiver \<open>a\<close>. \<open>now\<close> is the clock when
  the call starts, \<open>now_resp\<close> the clock when the response is handled, \<open>net\<close> the
  network (the outcome of a GET of a URL). The result is the time at which the request
  goes out (after the sleep, if any), what the call returns, and the receiver when the
  body ends.
\<close>

definition GetOrder_body ::
  "AccrualRepository \<Rightarrow> Time \<Rightarrow> Time \<Rightarrow> (string \<Rightarrow> http_result) \<Rightarrow> string \<Rightarrow>
     Time \<times> (error + ExternalOrder) go_result \<times> AccrualRepository" where
  "GetOrder_body a now now_resp net number =
     (let sent = (if \<not> AccrualRepository_CanDoRequest a now
                  then now + max 0 (AccrualRepository_GetSleepDuration a now) else now);
          url = AccrualSystemAddress a @ ''api/orders/'' @ number
      in case net url of
           RequestFailed \<Rightarrow> (sent, Return (Inl TransportError), a)
         | NilResponse \<Rightarrow> (sent, Return (Inr ExternalOrder_zero), a)
         | Response code header order \<Rightarrow>
             if code = 429 then
               (case header_values header ''Retry-After'' of
                  [] \<Rightarrow> (sent, Panic, a)
                | v # _ \<Rightarrow>
                    (case Atoi v of
                       Inl innerErr \<Rightarrow> (sent, Return (Inl innerErr), a)
                     | Inr retryAfterHeaderValue \<Rightarrow>
                         (sent, Return (Inl ErrTooManyRequests),
                          a\<lparr>retryAfter := now_resp + retryAfterHeaderValue\<rparr>)))
             else if code = 204 then (sent, Return (Inl ErrOrderNotRegistered), a)
             else if code = 500 then
               (sent, Return (Inl ErrExternalAccrualServiceNotAvailable), a)
             else if code = 200 then (sent, Return (Inr order), a)
             else (sent, Return (Inl ErrUnexpectedBehaviour), a))"

text \<open>
  A call \<^verbatim>\<open>a.GetOrder(number)\<close>. The method has a value receiver
  (\<^verbatim>\<open>func (a AccrualRepository) GetOrder\<close>): the body runs on a copy of the caller's
  repository, and the copy is dropped when the call ends. The second component is the
  caller's repository after the call.
\<close>

definition AccrualRepository_GetOrder ::
  "AccrualRepository \<Rightarrow> Time \<Rightarrow> Time \<Rightarrow> (string \<Rightarrow> http_result) \<Rightarrow> string \<Rightarrow>
     (Time \<times> (error + ExternalOrder) go_result) \<times> AccrualRepository" where
  "AccrualRepository_GetOrder a now now_resp net number =
     (case GetOrder_body a now now_resp net number of
        (sent, result, receiver_copy) \<Rightarrow> ((sent, result), a))"

section \<open>OrderService\<close>

text \<open>
  \<^verbatim>\<open>UpdateOrderStatus\<close> of the service. \<open>getOrder\<close> is the accrual repository behind
  its interface: what \<^verbatim>\<open>GetOrder\<close> gives for an order number. \<open>f1\<close> is the fault
  schedule of the first call into the order repository, \<open>f2\<close> the one of the call that
  returns the order to NEW after a failure. A Go \<^verbatim>\<open>switch\<close> does not fall through: the
  case \<^verbatim>\<open>ExternalOrderStatusRegistered\<close> has an empty body, so control leaves the
  switch and reaches the final \<^verbatim>\<open>return nil\<close>.
\<close>

definition set_status_or_fail ::
  "faults \<Rightarrow> database \<Rightarrow> nat \<Rightarrow> string \<Rightarrow> error option go_result \<times> database" where
  "set_status_or_fail f db orderID status =
     (case OrderRepository_UpdateOrderStatus f db orderID status of
        (Some err, db') \<Rightarrow> (Return (Some err), db')
      | (None, db') \<Rightarrow> (Return None, db'))"

text \<open>
  The failure branch of the PROCESSED and INVALID cases: return the order to NEW; the
  error returned is the one of that update if it fails, else the first error.
\<close>

definition return_to_new ::
  "faults \<Rightarrow> database \<Rightarrow> nat \<Rightarrow> error \<Rightarrow> error option go_result \<times> database" where
  "return_to_new f db orderID err =
     (case OrderRepository_UpdateOrderStatus f db orderID OrderStatusNew of
        (Some innerErr, db') \<Rightarrow> (Return (Some innerErr), db')
      | (None, db') \<Rightarrow> (Return (Some err), db'))"

definition OrderService_UpdateOrderStatus ::
  "(string \<Rightarrow> (error + ExternalOrder) go_result) \<Rightarrow> faults \<Rightarrow> faults \<Rightarrow> database \<Rightarrow> Order \<Rightarrow>
     error option go_result \<times> database" where
  "OrderService_UpdateOrderStatus getOrder f1 f2 db order =
     (case getOrder (Number order) of
        Panic \<Rightarrow> (Panic, db)
      | Exit \<Rightarrow> (Exit, db)
      | Return (Inl err) \<Rightarrow>
          if err = ErrOrderNotRegistered
          then set_status_or_fail f1 db (ID order) OrderStatusInvalid
          else set_status_or_fail f1 db (ID order) OrderStatusNew
      | Return (Inr orderState) \<Rightarrow>
          if ext_Status orderState = ExternalOrderStatusRegistered then (Return None, db)
          else if ext_Status orderState = ExternalOrderStatusProcessing
          then set_status_or_fail f1 db (ID order) OrderStatusNew
          else if ext_Status orderState = ExternalOrderStatusProcessed then
            (case OrderRepository_UpdateOrderAndPasteAccrual f1 db order OrderStatusProcessed
                    (ext_Accrual orderState) of
               (Some err, db', _) \<Rightarrow> return_to_new f2 db' (ID order) err
             | (None, db', _) \<Rightarrow> (Return None, db'))
          else if ext_Status orderState = ExternalOrderStatusInvalid then
            (case OrderRepository_UpdateOrderStatus f1 db (ID order) OrderStatusInvalid of
               (Some err, db') \<Rightarrow> return_to_new f2 db' (ID order) err
             | (None, db') \<Rightarrow> (Return None, db'))
          else set_status_or_fail f1 db (ID order) OrderStatusNew)"


text \<open>The status of an order in the store.\<close>

definition status_of :: "database \<Rightarrow> nat \<Rightarrow> string option" where
  "status_of db orderID = map_option Status (order_table db orderID)"

section \<open>CreateWithdrawalHandler\<close>

text \<open>
  The decoded request body: \<^verbatim>\<open>models.CreateWithdrawalRequest\<close> is not among the
  sources; the handler reads its fields \<^verbatim>\<open>Order\<close> (a string) and \<^verbatim>\<open>Amount\<close>
  (passed on as the \<^verbatim>\<open>float64\<close> amount). A request is its content type, its body
  as the JSON decoder gives it (\<open>None\<close> when decoding fails) and the user id the
  authentication middleware left in the context (\<open>None\<close> when there is none: the
  type assertion panics).
\<close>

record CreateWithdrawalRequest =
  req_Order :: string
  req_Amount :: real

record http_request =
  ContentType :: string
  Body :: "CreateWithdrawalRequest option"
  ctx_UserID :: "nat option"

text \<open>What a handler does to its \<^verbatim>\<open>http.ResponseWriter\<close>, in order.\<close>

datatype writer_event = WriteHeader nat | Write string

text \<open>\<^verbatim>\<open>http.Error\<close>: the status code, then the message and a newline.\<close>

definition http_Error :: "string \<Rightarrow> nat \<Rightarrow> writer_event list" where
  "http_Error msg code = [WriteHeader code, Write (msg @ [CHR 0x0A])]"

abbreviation StatusOK :: nat where "StatusOK \<equiv> 200"
abbreviation StatusBadRequest :: nat where "StatusBadRequest \<equiv> 400"
abbreviation StatusPaymentRequired :: nat where "StatusPaymentRequired \<equiv> 402"
abbreviation StatusUnprocessableEntity :: nat where "StatusUnprocessableEntity \<equiv> 422"
abbreviation StatusInternalServerError :: nat where "StatusInternalServerError \<equiv> 500"

text \<open>\<^verbatim>\<open>strings.Contains\<close>\<close>

fun HasPrefix :: "string \<Rightarrow> string \<Rightarrow> bool" where
  "HasPrefix s [] = True"
| "HasPrefix [] (p # ps) = False"
| "HasPrefix (c # cs) (p # ps) = (c = p \<and> HasPrefix cs ps)"

fun Contains :: "string \<Rightarrow> string \<Rightarrow> bool" where
  "Contains [] substr = (substr = [])"
| "Contains (c # cs) substr = (HasPrefix (c # cs) substr \<or> Contains cs substr)"

text \<open>
  The Luhn check as the library \<^verbatim>\<open>github.com/theplant/luhn\<close> computes it
  (\<^verbatim>\<open>(number%10 + checksum(number/10)) % 10 == 0\<close>, the checksum doubling every
  second digit from the right). The library is not among the sources: the handler
  below takes the check as a parameter, and the examples use this one.
\<close>

function luhn_checksum :: "nat \<Rightarrow> nat \<Rightarrow> nat" where
  "luhn_checksum i number =
     (if number = 0 then 0
      else
        (let cur = number mod 10;
             cur = (if even i
                    then (let d = cur * 2 in if d > 9 then d mod 10 + d div 10 else d)
                    else cur)
         in cur + luhn_checksum (Suc i) (number div 10)))"
  by pat_completeness auto
termination
  by (relation "measure snd") auto

declare luhn_checksum.simps [simp del]

definition luhn_mod10 :: "int \<Rightarrow> bool" where
  "luhn_mod10 number =
     (if 0 \<le> number
      then (nat number mod 10 + luhn_checksum 0 (nat number div 10) mod 10) mod 10 = 0
      else nat (- number) mod 10 = 0)"

text \<open>
  \<^verbatim>\<open>ServeHTTP\<close>. \<open>luhn_Valid\<close> is \<^verbatim>\<open>luhn.Valid\<close> of the library
  \<^verbatim>\<open>github.com/theplant/luhn\<close>. The result is what was written to the response, the
  database after the request, and whether the handler returned, panicked or the process
  ended. The branch
  for \<^verbatim>\<open>requestData.Amount == 0\<close> writes the error and has no \<^verbatim>\<open>return\<close>.
\<close>

definition CreateWithdrawalHandler_ServeHTTP ::
  "(int \<Rightarrow> bool) \<Rightarrow> faults \<Rightarrow> database \<Rightarrow> http_request \<Rightarrow>
     writer_event list \<times> database \<times> unit go_result" where
  "CreateWithdrawalHandler_ServeHTTP luhn_Valid f db request =
     (if \<not> Contains (ContentType request) ''application/json''
      then (http_Error ''Only application/json content type is allowed'' StatusBadRequest,
            db, Return ())
      else
        (case Body request of
           None \<Rightarrow> ([WriteHeader StatusBadRequest], db, Return ())
         | Some requestData \<Rightarrow>
        (case Atoi (req_Order requestData) of
           Inl err \<Rightarrow> ([WriteHeader StatusBadRequest], db, Return ())
         | Inr intOrderNumber \<Rightarrow>
        (if \<not> luhn_Valid intOrderNumber
         then (http_Error ''The provided payload does not contain a valid order number''
                 StatusUnprocessableEntity, db, Return ())
         else
        (let written =
               (if req_Amount requestData = 0
                then http_Error
                       ''The provided payload does not contain a valid withdrawal amount''
                       StatusUnprocessableEntity
                else [])
         in
        (case ctx_UserID request of
           None \<Rightarrow> (written, db, Panic)
         | Some userID \<Rightarrow>
        (case WithdrawalService_Create f db (req_Order requestData) (req_Amount requestData)
                userID of
           (Return (Inl err), db') \<Rightarrow>
             if err = ErrWithdrawalOrderAlreadyExists
             then (written @ [WriteHeader StatusBadRequest], db', Return ())
             else if err = ErrNotEnoughPoints
             then (written @ [WriteHeader StatusPaymentRequired], db', Return ())
             else (written @ http_Error ''Couldn't register the withdrawal''
                               StatusInternalServerError, db', Return ())
         | (Return (Inr createdID), db') \<Rightarrow>
             (written @ [WriteHeader StatusOK], db', Return ())
         | (Exit, db') \<Rightarrow> (written, db', Exit)
         | (Panic, db') \<Rightarrow> (written, db', Panic))))))))"

section \<open>The ledger: runs of credits and withdrawals\<close>

text \<open>
  The two operations that change a balance, each with the fault schedule of its call: a
  credit is \<^verbatim>\<open>UpdateOrderAndPasteAccrual\<close> with status PROCESSED, a debit is
  \<^verbatim>\<open>WithdrawalRepository.Create\<close>. Calls run one after the other, each as one
  transaction.
\<close>

datatype ledger_op =
    Credit faults Order real
  | Debit faults string real nat

text \<open>
  One operation: whether it was applied (returned no error), and the database after it.
  A call that ends the process applies nothing; the run goes on with the database as it
  is (the next call of a restarted process).
\<close>

fun apply_ledger_op :: "database \<Rightarrow> ledger_op \<Rightarrow> bool \<times> database" where
  "apply_ledger_op db (Credit f order amount) =
     (case OrderRepository_UpdateOrderAndPasteAccrual f db order OrderStatusProcessed amount of
        (None, db', _) \<Rightarrow> (True, db')
      | (Some err, db', _) \<Rightarrow> (False, db'))"
| "apply_ledger_op db (Debit f number amount userID) =
     (case WithdrawalRepository_Create f db number amount userID of
        (Return (Inr newID), db', _) \<Rightarrow> (True, db')
      | (_, db', _) \<Rightarrow> (False, db'))"

fun run_ledger :: "database \<Rightarrow> ledger_op list \<Rightarrow> database" where
  "run_ledger db [] = db"
| "run_ledger db (x # xs) = run_ledger (snd (apply_ledger_op db x)) xs"

text \<open>The amount an operation credits to, and withdraws from, the balance of a user.\<close>

fun credit_amount :: "nat \<Rightarrow> ledger_op \<Rightarrow> real" where
  "credit_amount u (Credit f order amount) = (if UserID order = u then amount else 0)"
| "credit_amount u (Debit f number amount userID) = 0"

fun withdrawal_amount_of :: "nat \<Rightarrow> ledger_op \<Rightarrow> real" where
  "withdrawal_amount_of u (Credit f order amount) = 0"
| "withdrawal_amount_of u (Debit f number amount userID) = (if userID = u then amount else 0)"

text \<open>
  The sum of the credits applied to user \<open>u\<close> in a run from \<open>db\<close>, and the sum of the
  withdrawals applied.
\<close>

fun credits_applied :: "nat \<Rightarrow> database \<Rightarrow> ledger_op list \<Rightarrow> real" where
  "credits_applied u db [] = 0"
| "credits_applied u db (x # xs) =
     (case apply_ledger_op db x of
        (applied, db') \<Rightarrow>
          (if applied then credit_amount u x else 0) + credits_applied u db' xs)"

fun withdrawals_applied :: "nat \<Rightarrow> database \<Rightarrow> ledger_op list \<Rightarrow> real" where
  "withdrawals_applied u db [] = 0"
| "withdrawals_applied u db (x # xs) =
     (case apply_ledger_op db x of
        (applied, db') \<Rightarrow>
          (if applied then withdrawal_amount_of u x else 0) + withdrawals_applied u db' xs)"

text \<open>The credits of a run have non-negative amounts.\<close>

fun credit_nonneg :: "ledger_op \<Rightarrow> bool" where
  "credit_nonneg (Credit f order amount) = (0 \<le> amount)"
| "credit_nonneg (Debit f number amount userID) = True"

section \<open>Example data\<close>

text \<open>
  A store with one user (balance 100 after a credit of 120 and a withdrawal of 20), a
  processed order and an order in flight; and fault schedules with one failing step.
\<close>

definition example_order :: Order where
  "example_order =
     \<lparr>ID = 7, UserID = 1, Number = ''79927398713'', Status = OrderStatusProcessing,
      CreatedAt = 1000\<rparr>"

definition example_db :: database where
  "example_db =
     \<lparr>order_table =
        [3 \<mapsto> \<lparr>ID = 3, UserID = 1, Number = ''4561261212345467'',
                Status = OrderStatusProcessed, CreatedAt = 500\<rparr>,
         7 \<mapsto> example_order],
      accrual_table = [\<lparr>accrual_amount = 120, accrual_user_id = 1, accrual_order_id = 3\<rparr>],
      user_balance_table = [1 \<mapsto> \<lparr>balance = 100, withdrawals_sum = 20\<rparr>],
      withdrawal_table =
        [\<lparr>withdrawal_id = 1, withdrawal_amount = 20, withdrawal_user_id = 1,
          withdrawal_order_number = ''2377225624''\<rparr>]\<rparr>"

text \<open>The same user and order before any credit or withdrawal.\<close>

definition fresh_db :: database where
  "fresh_db =
     \<lparr>order_table = [7 \<mapsto> example_order],
      accrual_table = [],
      user_balance_table = [1 \<mapsto> \<lparr>balance = 0, withdrawals_sum = 0\<rparr>],
      withdrawal_table = []\<rparr>"

text \<open>
  An accrual system that answers every request with 429 and \<^verbatim>\<open>Retry-After: 5\<close>, and a
  repository as \<^verbatim>\<open>NewAccrualRepository\<close> builds it.
\<close>

definition rate_limiting_net :: "string \<Rightarrow> http_result" where
  "rate_limiting_net url = Response 429 [''Retry-After'' \<mapsto> [''5'']] ExternalOrder_zero"

definition example_repository :: AccrualRepository where
  "example_repository = NewAccrualRepository ''http://accrual/''"

text \<open>A withdrawal request of amount 0 for a fresh order number, by user 1.\<close>

definition zero_amount_request :: http_request where
  "zero_amount_request =
     \<lparr>ContentType = ''application/json'',
      Body = Some \<lparr>req_Order = ''79927398713'', req_Amount = 0\<rparr>,
      ctx_UserID = Some 1\<rparr>"

definition fail_at :: "db_step \<Rightarrow> faults" where
  "fail_at step = (\<lambda>s. if s = step then Some ConnectionFailure else None)"

text \<open>
  A run on the fresh store: a credit of 500, a withdrawal of 150, a withdrawal of 400
  (more than the balance), a credit whose commit fails, and a withdrawal of 0.
\<close>

definition example_ops :: "ledger_op list" where
  "example_ops =
     [Credit no_faults example_order 500,
      Debit no_faults ''2377225624'' 150 1,
      Debit no_faults ''12345678903'' 400 1,
      Credit (fail_at Commit) example_order 30,
      Debit no_faults ''12345678903'' 0 1]"

section \<open>What a repository call can do to the store\<close>

lemma UpdateOrderStatus_cases:
  "OrderRepository_UpdateOrderStatus f db orderID status = (r, db') \<Longrightarrow>
     (r = None \<and> db' = sql_update_status db status orderID
        \<and> status \<in> {OrderStatusNew, OrderStatusProcessing, OrderStatusInvalid})
     \<or> (\<exists>e. r = Some e \<and> db' = db)"
  by (auto simp: OrderRepository_UpdateOrderStatus_def AllOrderStatuses_def
      split: if_splits option.splits)

lemma PasteAccrual_cases:
  "OrderRepository_UpdateOrderAndPasteAccrual f db order status amount = (r, db', t) \<Longrightarrow>
     (r = None \<and> status = OrderStatusProcessed \<and> t = Committed \<and>
      db' = sql_credit_balance
              (sql_insert_accrual (sql_update_status db status (ID order)) amount
                 (UserID order) (ID order))
              amount (UserID order))
     \<or> (\<exists>e. r = Some e \<and> db' = db \<and> t \<noteq> Committed)"
  by (auto simp: OrderRepository_UpdateOrderAndPasteAccrual_def tx_failed_def
      rollback_return_def Let_def split: if_splits option.splits)

lemma PasteAccrual_ok:
  "combined_update_ok f \<Longrightarrow>
   OrderRepository_UpdateOrderAndPasteAccrual f db order OrderStatusProcessed amount =
     (None,
      sql_credit_balance
        (sql_insert_accrual (sql_update_status db OrderStatusProcessed (ID order)) amount
           (UserID order) (ID order))
        amount (UserID order),
      Committed)"
  by (simp add: combined_update_ok_def paste_accrual_steps_def
      OrderRepository_UpdateOrderAndPasteAccrual_def Let_def)

lemma PasteAccrual_fails:
  "\<not> combined_update_ok f \<Longrightarrow>
   \<exists>err t. OrderRepository_UpdateOrderAndPasteAccrual f db order status amount = (Some err, db, t)
      \<and> t \<noteq> Committed"
  by (auto simp: combined_update_ok_def paste_accrual_steps_def
      OrderRepository_UpdateOrderAndPasteAccrual_def Let_def tx_failed_def rollback_return_def
      split: option.splits)

lemma Create_cases:
  "WithdrawalRepository_Create f db number amount userID = (r, db', t) \<Longrightarrow>
     (\<exists>row. r = Return (Inr (next_withdrawal_id db)) \<and> t = Committed
        \<and> user_balance_table db userID = Some row \<and> amount \<le> balance row
        \<and> \<not> withdrawal_number_used db number
        \<and> db' = sql_insert_withdrawal (sql_debit_balance db amount userID) amount userID number)
     \<or> ((r = Exit \<or> (\<exists>e. r = Return (Inl e))) \<and> db' = db \<and> t \<noteq> Committed)"
  by (auto simp: WithdrawalRepository_Create_def tx_error_def rollback_return_def Let_def
      rollback_or_exit_def
      scan_balance_def insert_row_err_def sql_debit_balance_def next_withdrawal_id_def
      withdrawal_number_used_def split: if_splits option.splits sum.splits)

lemma status_of_update:
  "status_of (sql_update_status db status orderID) k =
     (if k = orderID \<and> order_table db orderID \<noteq> None then Some status else status_of db k)"
  by (auto simp: status_of_def sql_update_status_def split: option.splits)

lemma status_of_insert_accrual [simp]:
  "status_of (sql_insert_accrual db a u k) = status_of db"
  by (rule ext) (simp add: status_of_def sql_insert_accrual_def)

lemma status_of_credit [simp]: "status_of (sql_credit_balance db a u) = status_of db"
  by (rule ext) (simp add: status_of_def sql_credit_balance_def split: option.splits)

lemma accrual_table_update [simp]:
  "accrual_table (sql_update_status db s k) = accrual_table db"
  by (simp add: sql_update_status_def split: option.splits)

lemma accrual_table_insert [simp]:
  "accrual_table (sql_insert_accrual db a u k) =
     accrual_table db @ [\<lparr>accrual_amount = a, accrual_user_id = u, accrual_order_id = k\<rparr>]"
  by (simp add: sql_insert_accrual_def)

lemma accrual_table_credit [simp]:
  "accrual_table (sql_credit_balance db a u) = accrual_table db"
  by (simp add: sql_credit_balance_def split: option.splits)

lemma user_balance_update [simp]:
  "user_balance_table (sql_update_status db s k) = user_balance_table db"
  by (simp add: sql_update_status_def split: option.splits)

lemma user_balance_insert_accrual [simp]:
  "user_balance_table (sql_insert_accrual db a u k) = user_balance_table db"
  by (simp add: sql_insert_accrual_def)

lemma user_balance_insert_withdrawal [simp]:
  "user_balance_table (sql_insert_withdrawal db a u n) = user_balance_table db"
  by (simp add: sql_insert_withdrawal_def)

lemma user_balance_credit:
  "user_balance_table (sql_credit_balance db a v) u =
     (if u = v then map_option (\<lambda>b. b\<lparr>balance := balance b + a\<rparr>) (user_balance_table db u)
      else user_balance_table db u)"
  by (simp add: sql_credit_balance_def split: option.splits)

lemma user_balance_debit:
  "user_balance_table (sql_debit_balance db a v) u =
     (if u = v
      then map_option
             (\<lambda>b. b\<lparr>balance := balance b - a, withdrawals_sum := withdrawals_sum b + a\<rparr>)
             (user_balance_table db u)
      else user_balance_table db u)"
  by (simp add: sql_debit_balance_def split: option.splits)

lemma withdrawal_table_frame [simp]:
  "withdrawal_table (sql_update_status db s k) = withdrawal_table db"
  "withdrawal_table (sql_insert_accrual db a u k) = withdrawal_table db"
  "withdrawal_table (sql_credit_balance db a u) = withdrawal_table db"
  "withdrawal_table (sql_debit_balance db a u) = withdrawal_table db"
  by (simp_all add: sql_update_status_def sql_insert_accrual_def sql_credit_balance_def
      sql_debit_balance_def split: option.splits)

lemma withdrawal_table_insert [simp]:
  "withdrawal_table (sql_insert_withdrawal db a u n) =
     withdrawal_table db @
       [\<lparr>withdrawal_id = Suc (length (withdrawal_table db)), withdrawal_amount = a,
         withdrawal_user_id = u, withdrawal_order_number = n\<rparr>]"
  by (simp add: sql_insert_withdrawal_def next_withdrawal_id_def)

lemma fresh_db_simps:
  "order_table fresh_db 7 = Some example_order"
  "user_balance_table fresh_db (Suc 0) = Some \<lparr>balance = 0, withdrawals_sum = 0\<rparr>"
  "accrual_table fresh_db = []"
  "withdrawal_table fresh_db = []"
  by (simp_all add: fresh_db_def)

lemma example_db_simps:
  "order_table example_db 7 = Some example_order"
  "order_table example_db 3 =
     Some \<lparr>ID = 3, UserID = 1, Number = ''4561261212345467'',
           Status = OrderStatusProcessed, CreatedAt = 500\<rparr>"
  "user_balance_table example_db 1 = Some \<lparr>balance = 100, withdrawals_sum = 20\<rparr>"
  "user_balance_table example_db (Suc 0) = Some \<lparr>balance = 100, withdrawals_sum = 20\<rparr>"
  "accrual_table example_db =
     [\<lparr>accrual_amount = 120, accrual_user_id = 1, accrual_order_id = 3\<rparr>]"
  "withdrawal_table example_db =
     [\<lparr>withdrawal_id = 1, withdrawal_amount = 20, withdrawal_user_id = 1,
       withdrawal_order_number = ''2377225624''\<rparr>]"
  by (simp_all add: example_db_def)

section \<open>Order status PROCESSED is set with its accrual only\<close>

text \<open>
  Claim C8. The plain status update of the order repository refuses the status PROCESSED
  (\<open>ErrWrongMethodUsed\<close>) and every status outside NEW, PROCESSING, PROCESSED, INVALID
  (\<open>ErrInvalidStatus\<close>), whatever the driver does, and leaves the store as it was;
  \<^verbatim>\<open>UpdateOrderAndPasteAccrual\<close> refuses every target status other than PROCESSED.
  So no call of the plain update makes an order PROCESSED that was not, and when a call of
  \<^verbatim>\<open>UpdateOrderAndPasteAccrual\<close> makes an order PROCESSED that was not, it is the
  order passed in and the same committed transaction appended its accrual row.
\<close>

theorem processed_only_with_accrual:
  "OrderRepository_UpdateOrderStatus f db orderID OrderStatusProcessed =
     (Some ErrWrongMethodUsed, db)
   \<and> (status \<notin> {OrderStatusNew, OrderStatusProcessing, OrderStatusProcessed,
                 OrderStatusInvalid} \<longrightarrow>
        OrderRepository_UpdateOrderStatus f db orderID status = (Some ErrInvalidStatus, db))
   \<and> (status \<noteq> OrderStatusProcessed \<longrightarrow>
        OrderRepository_UpdateOrderAndPasteAccrual f db order status amount =
          (Some ErrWrongMethodUsed, db, NoTx))
   \<and> (status_of (snd (OrderRepository_UpdateOrderStatus f db orderID status1)) k =
          Some OrderStatusProcessed \<longrightarrow>
        status_of db k = Some OrderStatusProcessed)
   \<and> (status_of
          (fst (snd (OrderRepository_UpdateOrderAndPasteAccrual f db order status2 amount))) j =
          Some OrderStatusProcessed
        \<and> status_of db j \<noteq> Some OrderStatusProcessed \<longrightarrow>
        j = ID order
        \<and> accrual_table
            (fst (snd (OrderRepository_UpdateOrderAndPasteAccrual f db order status2 amount))) =
            accrual_table db @
              [\<lparr>accrual_amount = amount, accrual_user_id = UserID order,
                accrual_order_id = ID order\<rparr>])"
proof -
  have a: "OrderRepository_UpdateOrderStatus f db orderID OrderStatusProcessed =
      (Some ErrWrongMethodUsed, db)"
    by (simp add: OrderRepository_UpdateOrderStatus_def AllOrderStatuses_def)
  have b: "status \<notin> {OrderStatusNew, OrderStatusProcessing, OrderStatusProcessed,
        OrderStatusInvalid} \<longrightarrow>
      OrderRepository_UpdateOrderStatus f db orderID status = (Some ErrInvalidStatus, db)"
    by (simp add: OrderRepository_UpdateOrderStatus_def AllOrderStatuses_def)
  have c: "status \<noteq> OrderStatusProcessed \<longrightarrow>
      OrderRepository_UpdateOrderAndPasteAccrual f db order status amount =
        (Some ErrWrongMethodUsed, db, NoTx)"
    by (simp add: OrderRepository_UpdateOrderAndPasteAccrual_def)
  have d: "status_of (snd (OrderRepository_UpdateOrderStatus f db orderID status1)) k =
        Some OrderStatusProcessed \<longrightarrow>
      status_of db k = Some OrderStatusProcessed"
  proof -
    obtain r db' where eq: "OrderRepository_UpdateOrderStatus f db orderID status1 = (r, db')"
      by (cases "OrderRepository_UpdateOrderStatus f db orderID status1")
    from UpdateOrderStatus_cases [OF eq] show ?thesis
      unfolding eq by (auto simp: status_of_update split: if_splits)
  qed
  have e: "status_of
        (fst (snd (OrderRepository_UpdateOrderAndPasteAccrual f db order status2 amount))) j =
        Some OrderStatusProcessed
      \<and> status_of db j \<noteq> Some OrderStatusProcessed \<longrightarrow>
      j = ID order
      \<and> accrual_table
          (fst (snd (OrderRepository_UpdateOrderAndPasteAccrual f db order status2 amount))) =
          accrual_table db @
            [\<lparr>accrual_amount = amount, accrual_user_id = UserID order,
              accrual_order_id = ID order\<rparr>]"
  proof -
    obtain r db' t where
      eq: "OrderRepository_UpdateOrderAndPasteAccrual f db order status2 amount = (r, db', t)"
      by (cases "OrderRepository_UpdateOrderAndPasteAccrual f db order status2 amount")
    from PasteAccrual_cases [OF eq] show ?thesis
      unfolding eq by (auto simp: status_of_update split: if_splits)
  qed
  from a b c d e show ?thesis by blast
qed

theorem processed_only_with_accrual_witness:
  "OrderRepository_UpdateOrderStatus no_faults example_db 7 OrderStatusProcessed =
     (Some ErrWrongMethodUsed, example_db)
   \<and> ''DONE'' \<notin> {OrderStatusNew, OrderStatusProcessing, OrderStatusProcessed,
                  OrderStatusInvalid}
   \<and> OrderRepository_UpdateOrderStatus no_faults example_db 7 ''DONE'' =
       (Some ErrInvalidStatus, example_db)
   \<and> ''DONE'' \<noteq> OrderStatusProcessed
   \<and> OrderRepository_UpdateOrderAndPasteAccrual no_faults example_db example_order ''DONE'' 500 =
       (Some ErrWrongMethodUsed, example_db, NoTx)
   \<and> status_of (snd (OrderRepository_UpdateOrderStatus no_faults example_db 7
                       OrderStatusInvalid)) 3 = Some OrderStatusProcessed
   \<and> status_of example_db 3 = Some OrderStatusProcessed
   \<and> status_of
       (fst (snd (OrderRepository_UpdateOrderAndPasteAccrual no_faults example_db
                    example_order OrderStatusProcessed 500))) 7 = Some OrderStatusProcessed
   \<and> status_of example_db 7 \<noteq> Some OrderStatusProcessed
   \<and> 7 = ID example_order
   \<and> accrual_table
       (fst (snd (OrderRepository_UpdateOrderAndPasteAccrual no_faults example_db
                    example_order OrderStatusProcessed 500))) =
       accrual_table example_db @
         [\<lparr>accrual_amount = 500, accrual_user_id = UserID example_order,
           accrual_order_id = ID example_order\<rparr>]"
proof -
  have h1: "status_of (snd (OrderRepository_UpdateOrderStatus no_faults example_db 7
      OrderStatusInvalid)) 3 = Some OrderStatusProcessed"
    by (simp add: OrderRepository_UpdateOrderStatus_def AllOrderStatuses_def no_faults_def
        sql_update_status_def status_of_def example_db_simps)
  have h2: "status_of
      (fst (snd (OrderRepository_UpdateOrderAndPasteAccrual no_faults example_db
                   example_order OrderStatusProcessed 500))) 7 = Some OrderStatusProcessed"
    by (simp add: OrderRepository_UpdateOrderAndPasteAccrual_def no_faults_def Let_def
        status_of_update example_db_simps example_order_def)
  have h3: "status_of example_db 7 \<noteq> Some OrderStatusProcessed"
    by (simp add: status_of_def example_db_simps example_order_def)
  show ?thesis
    using processed_only_with_accrual
      [of no_faults example_db 7 "''DONE''" example_order 500 OrderStatusInvalid 3
          OrderStatusProcessed 7] h1 h2 h3
    by (simp add: example_order_def)
qed

section \<open>The combined update is all or nothing\<close>

text \<open>
  Claim C4. \<^verbatim>\<open>UpdateOrderAndPasteAccrual\<close> on an order of the store whose user has a
  balance row. When the driver fails at no step of the transaction, the call returns no
  error and the committed store has all three effects: the order's status is PROCESSED,
  the accrual row of the amount is recorded for the order, and the user's balance is
  increased by the amount. When the driver fails at any step, the call returns one error
  and the committed store, with it the order's status, is what it was before the call.
\<close>

theorem paste_accrual_atomic:
  assumes row: "order_table db (ID order) = Some row"
    and bal: "user_balance_table db (UserID order) = Some b"
  shows "(combined_update_ok f \<longrightarrow>
            (\<exists>db'. OrderRepository_UpdateOrderAndPasteAccrual f db order OrderStatusProcessed
                     amount = (None, db', Committed)
               \<and> db' = sql_credit_balance
                          (sql_insert_accrual
                             (sql_update_status db OrderStatusProcessed (ID order)) amount
                             (UserID order) (ID order))
                          amount (UserID order)
               \<and> status_of db' (ID order) = Some OrderStatusProcessed
               \<and> accrual_table db' = accrual_table db @
                    [\<lparr>accrual_amount = amount, accrual_user_id = UserID order,
                      accrual_order_id = ID order\<rparr>]
               \<and> user_balance_table db' (UserID order) =
                    Some (b\<lparr>balance := balance b + amount\<rparr>)))
       \<and> (\<not> combined_update_ok f \<longrightarrow>
            (\<exists>err t. OrderRepository_UpdateOrderAndPasteAccrual f db order status amount =
                       (Some err, db, t)
               \<and> t \<noteq> Committed))"
  using PasteAccrual_ok [of f db order amount] PasteAccrual_fails [of f db order status amount]
    row bal
  by (auto simp: status_of_update user_balance_credit)

theorem paste_accrual_atomic_witness:
  "order_table example_db (ID example_order) = Some example_order
   \<and> user_balance_table example_db (UserID example_order) =
       Some \<lparr>balance = 100, withdrawals_sum = 20\<rparr>
   \<and> combined_update_ok no_faults
   \<and> fst (OrderRepository_UpdateOrderAndPasteAccrual no_faults example_db example_order
            OrderStatusProcessed 500) = None
   \<and> status_of
       (fst (snd (OrderRepository_UpdateOrderAndPasteAccrual no_faults example_db
                    example_order OrderStatusProcessed 500))) 7 = Some OrderStatusProcessed
   \<and> user_balance_table
       (fst (snd (OrderRepository_UpdateOrderAndPasteAccrual no_faults example_db
                    example_order OrderStatusProcessed 500))) 1 =
       Some \<lparr>balance = 600, withdrawals_sum = 20\<rparr>
   \<and> \<not> combined_update_ok (fail_at (Exec CreditBalance))
   \<and> fst (OrderRepository_UpdateOrderAndPasteAccrual (fail_at (Exec CreditBalance))
            example_db example_order OrderStatusProcessed 500) =
       Some (DriverError ConnectionFailure)
   \<and> fst (snd (OrderRepository_UpdateOrderAndPasteAccrual (fail_at (Exec CreditBalance))
                 example_db example_order OrderStatusProcessed 500)) = example_db"
proof -
  have o: "order_table example_db (ID example_order) = Some example_order"
    by (simp add: example_db_simps example_order_def)
  have u: "user_balance_table example_db (UserID example_order) =
      Some \<lparr>balance = 100, withdrawals_sum = 20\<rparr>"
    by (simp add: example_db_simps example_order_def)
  have ok: "combined_update_ok no_faults"
    by (simp add: combined_update_ok_def paste_accrual_steps_def no_faults_def)
  have ko: "\<not> combined_update_ok (fail_at (Exec CreditBalance))"
    by (simp add: combined_update_ok_def paste_accrual_steps_def fail_at_def)
  have e: "fst (OrderRepository_UpdateOrderAndPasteAccrual (fail_at (Exec CreditBalance))
        example_db example_order OrderStatusProcessed 500) =
      Some (DriverError ConnectionFailure)"
    by (simp add: OrderRepository_UpdateOrderAndPasteAccrual_def fail_at_def Let_def
        tx_failed_def rollback_return_def)
  from paste_accrual_atomic [OF o u, of no_faults 500 OrderStatusProcessed] ok
  have g1: "fst (OrderRepository_UpdateOrderAndPasteAccrual no_faults example_db example_order
        OrderStatusProcessed 500) = None
    \<and> status_of
        (fst (snd (OrderRepository_UpdateOrderAndPasteAccrual no_faults example_db
                     example_order OrderStatusProcessed 500))) 7 = Some OrderStatusProcessed
    \<and> user_balance_table
        (fst (snd (OrderRepository_UpdateOrderAndPasteAccrual no_faults example_db
                     example_order OrderStatusProcessed 500))) 1 =
        Some \<lparr>balance = 600, withdrawals_sum = 20\<rparr>"
    by (auto simp: example_order_def)
  from paste_accrual_atomic
    [OF o u, of "fail_at (Exec CreditBalance)" 500 OrderStatusProcessed] ko
  have g2: "fst (snd (OrderRepository_UpdateOrderAndPasteAccrual (fail_at (Exec CreditBalance))
        example_db example_order OrderStatusProcessed 500)) = example_db"
    by auto
  from o u ok ko e g1 g2 show ?thesis by simp
qed

section \<open>Withdrawals\<close>

lemma Create_not_enough_points:
  assumes bal: "user_balance_table db userID = Some row"
    and res: "WithdrawalRepository_Create f db number amount userID =
                (Return (Inl ErrNotEnoughPoints), db', t)"
  shows "balance row < amount"
  using res bal
  by (auto simp: WithdrawalRepository_Create_def tx_error_def rollback_return_def Let_def
      rollback_or_exit_def scan_balance_def insert_row_err_def
      split: if_splits option.splits sum.splits)

lemma Create_failure_rolled_back:
  assumes call: "WithdrawalRepository_Create f d n a u = (r, d', t)"
    and failed: "r = Exit \<or> (\<exists>err. r = Return (Inl err))"
    and prep: "f (Prepare InsertWithdrawal) = None"
    and scan: "f (Scan InsertWithdrawal) \<noteq> Some IntegrityConstraintViolation"
  shows "d' = d
       \<and> (t = NoTx \<and> f BeginTx \<noteq> None
          \<or> t = RolledBack \<and> f BeginTx = None \<and> f Rollback = None
          \<or> t = RollbackFailed \<and> f BeginTx = None \<and> f Rollback \<noteq> None
          \<or> t = CommitFailed \<and> f BeginTx = None \<and> f Commit \<noteq> None)"
  using assms
  by (auto simp: WithdrawalRepository_Create_def tx_error_def rollback_return_def Let_def
      rollback_or_exit_def split: if_splits option.splits sum.splits)

text \<open>
  Claim C6. For a user with a balance row: whatever the driver does, when
  \<^verbatim>\<open>WithdrawalRepository.Create\<close> fails with \<open>ErrNotEnoughPoints\<close> the amount exceeds
  the balance and the committed store is unchanged (balance, withdrawn sum and
  withdrawal rows as before); and when the driver does not fail on the way to the check
  (begin, prepare, query and scan of the balance, rollback), the call fails with
  \<open>ErrNotEnoughPoints\<close> exactly when the amount exceeds the balance.
\<close>

theorem insufficient_balance_rejected:
  assumes bal: "user_balance_table db userID = Some row"
  shows "(fst (WithdrawalRepository_Create f db number amount userID) = Return (Inl ErrNotEnoughPoints)
            \<longrightarrow> balance row < amount
              \<and> fst (snd (WithdrawalRepository_Create f db number amount userID)) = db)
       \<and> (f BeginTx = None \<and> f (Prepare SelectBalance) = None
            \<and> f (Query SelectBalance) = None \<and> f (Scan SelectBalance) = None
            \<and> f Rollback = None \<longrightarrow>
            (fst (WithdrawalRepository_Create f db number amount userID) =
               Return (Inl ErrNotEnoughPoints)) = (balance row < amount))"
proof -
  obtain r db' t where eq: "WithdrawalRepository_Create f db number amount userID = (r, db', t)"
    by (cases "WithdrawalRepository_Create f db number amount userID")
  have 1: "r = Return (Inl ErrNotEnoughPoints) \<longrightarrow> balance row < amount \<and> db' = db"
    using Create_cases [OF eq] Create_not_enough_points [OF bal] eq by auto
  have 2: "f BeginTx = None \<and> f (Prepare SelectBalance) = None
      \<and> f (Query SelectBalance) = None \<and> f (Scan SelectBalance) = None
      \<and> f Rollback = None \<and> balance row < amount \<longrightarrow> r = Return (Inl ErrNotEnoughPoints)"
    using eq bal
    by (auto simp: WithdrawalRepository_Create_def tx_error_def rollback_return_def
        rollback_or_exit_def scan_balance_def)
  from 1 2 show ?thesis unfolding eq by auto
qed

theorem insufficient_balance_rejected_witness:
  "user_balance_table example_db 1 = Some \<lparr>balance = 100, withdrawals_sum = 20\<rparr>
   \<and> balance \<lparr>balance = 100, withdrawals_sum = 20\<rparr> < 150
   \<and> fst (WithdrawalRepository_Create no_faults example_db ''79927398713'' 150 1) =
       Return (Inl ErrNotEnoughPoints)
   \<and> fst (snd (WithdrawalRepository_Create no_faults example_db ''79927398713'' 150 1)) =
       example_db
   \<and> \<not> balance \<lparr>balance = 100, withdrawals_sum = 20\<rparr> < 60
   \<and> fst (WithdrawalRepository_Create no_faults example_db ''79927398713'' 60 1) \<noteq>
       Return (Inl ErrNotEnoughPoints)"
  using insufficient_balance_rejected
      [of example_db 1 "\<lparr>balance = 100, withdrawals_sum = 20\<rparr>" no_faults
          "''79927398713''" 150]
    insufficient_balance_rejected
      [of example_db 1 "\<lparr>balance = 100, withdrawals_sum = 20\<rparr>" no_faults
          "''79927398713''" 60]
  by (simp add: example_db_simps no_faults_def)

text \<open>
  Claim C7, as stated, fails: the balance check comes before the insert, so a withdrawal
  whose order number is already used and whose amount exceeds the balance fails with
  \<open>ErrNotEnoughPoints\<close>, not with \<open>ErrWithdrawalOrderAlreadyExists\<close>.
\<close>

theorem duplicate_number_after_balance_check_counterexample:
  "withdrawal_number_used example_db ''2377225624''
   \<and> WithdrawalRepository_Create no_faults example_db ''2377225624'' 150 1 =
       (Return (Inl ErrNotEnoughPoints), example_db, RolledBack)"
  by (simp add: withdrawal_number_used_def WithdrawalRepository_Create_def no_faults_def
      scan_balance_def tx_error_def rollback_return_def rollback_or_exit_def
      example_db_simps)

text \<open>
  Claim C7, amended. When the order number has already been used by a withdrawal, the
  amount does not exceed the user's balance and the driver reports no other failure,
  \<^verbatim>\<open>WithdrawalRepository.Create\<close> rolls back and fails with
  \<open>ErrWithdrawalOrderAlreadyExists\<close>. And for every call that fails (returns an error
  or ends the process), leaving out the schedules where the driver fails at the prepare
  of the insert or reports an integrity violation at the scan of the inserted row: the
  store is what it was before the call, so no partial debit is visible, and either no
  transaction was begun (\<^verbatim>\<open>BeginTx\<close> failed), or the transaction was rolled back, or
  the rollback itself failed, or the commit failed.
\<close>

theorem duplicate_withdrawal_rejected:
  assumes bal: "user_balance_table db userID = Some row"
    and enough: "amount \<le> balance row"
    and used: "withdrawal_number_used db number"
  shows "WithdrawalRepository_Create no_faults db number amount userID =
           (Return (Inl ErrWithdrawalOrderAlreadyExists), db, RolledBack)
       \<and> (\<forall>f d n a u r d' t.
             WithdrawalRepository_Create f d n a u = (r, d', t)
             \<and> (r = Exit \<or> (\<exists>err. r = Return (Inl err)))
             \<and> f (Prepare InsertWithdrawal) = None
             \<and> f (Scan InsertWithdrawal) \<noteq> Some IntegrityConstraintViolation \<longrightarrow>
             d' = d
             \<and> (t = NoTx \<and> f BeginTx \<noteq> None
                \<or> t = RolledBack \<and> f BeginTx = None \<and> f Rollback = None
                \<or> t = RollbackFailed \<and> f BeginTx = None \<and> f Rollback \<noteq> None
                \<or> t = CommitFailed \<and> f BeginTx = None \<and> f Commit \<noteq> None))"
proof -
  have u: "withdrawal_number_used (sql_debit_balance db amount userID) number"
    using used by (simp add: withdrawal_number_used_def)
  have 1: "WithdrawalRepository_Create no_faults db number amount userID =
      (Return (Inl ErrWithdrawalOrderAlreadyExists), db, RolledBack)"
    using bal enough u
    by (simp add: WithdrawalRepository_Create_def no_faults_def scan_balance_def
        insert_row_err_def Let_def)
  from 1 Create_failure_rolled_back show ?thesis by blast
qed

theorem duplicate_withdrawal_rejected_witness:
  "user_balance_table example_db 1 = Some \<lparr>balance = 100, withdrawals_sum = 20\<rparr>
   \<and> 60 \<le> balance \<lparr>balance = 100, withdrawals_sum = 20\<rparr>
   \<and> withdrawal_number_used example_db ''2377225624''
   \<and> WithdrawalRepository_Create no_faults example_db ''2377225624'' 60 1 =
       (Return (Inl ErrWithdrawalOrderAlreadyExists), example_db, RolledBack)
   \<and> fail_at (Exec DebitBalance) (Prepare InsertWithdrawal) = None
   \<and> fail_at (Exec DebitBalance) (Scan InsertWithdrawal) \<noteq> Some IntegrityConstraintViolation
   \<and> WithdrawalRepository_Create (fail_at (Exec DebitBalance)) example_db ''79927398713'' 60 1 =
       (Return (Inl (DriverError ConnectionFailure)), example_db, RolledBack)"
proof -
  have b: "user_balance_table example_db 1 = Some \<lparr>balance = 100, withdrawals_sum = 20\<rparr>"
    by (simp add: example_db_simps)
  have e: "(60::real) \<le> balance \<lparr>balance = 100, withdrawals_sum = 20\<rparr>" by simp
  have u: "withdrawal_number_used example_db ''2377225624''"
    by (simp add: withdrawal_number_used_def example_db_simps)
  have p: "fail_at (Exec DebitBalance) (Prepare InsertWithdrawal) = None"
    "fail_at (Exec DebitBalance) (Scan InsertWithdrawal) \<noteq> Some IntegrityConstraintViolation"
    "fail_at (Exec DebitBalance) BeginTx = None" "fail_at (Exec DebitBalance) Rollback = None"
    "fail_at (Exec DebitBalance) Commit = None"
    by (simp_all add: fail_at_def)
  have l: "fst (WithdrawalRepository_Create (fail_at (Exec DebitBalance)) example_db
        ''79927398713'' 60 1) = Return (Inl (DriverError ConnectionFailure))"
    by (simp add: WithdrawalRepository_Create_def fail_at_def scan_balance_def Let_def
        rollback_or_exit_def example_db_simps)
  obtain r db' t where
    eq: "WithdrawalRepository_Create (fail_at (Exec DebitBalance)) example_db
           ''79927398713'' 60 1 = (r, db', t)"
    by (cases "WithdrawalRepository_Create (fail_at (Exec DebitBalance)) example_db
           ''79927398713'' 60 1")
  from l eq have r: "r = Return (Inl (DriverError ConnectionFailure))" by simp
  from duplicate_withdrawal_rejected [OF b e u] eq r p
  have "db' = example_db \<and> t = RolledBack" by blast
  with duplicate_withdrawal_rejected [OF b e u] b e u p r eq show ?thesis by simp
qed

section \<open>The ledger invariant\<close>

lemma apply_ledger_op_balance:
  assumes bal: "user_balance_table db u = Some b"
  shows "\<exists>b'. user_balance_table (snd (apply_ledger_op db x)) u = Some b'
          \<and> balance b' = balance b
               + (if fst (apply_ledger_op db x) then credit_amount u x else 0)
               - (if fst (apply_ledger_op db x) then withdrawal_amount_of u x else 0)
          \<and> withdrawals_sum b' = withdrawals_sum b
               + (if fst (apply_ledger_op db x) then withdrawal_amount_of u x else 0)
          \<and> (credit_nonneg x \<and> 0 \<le> balance b \<longrightarrow> 0 \<le> balance b')"
proof (cases x)
  case (Credit f order amount)
  obtain r db' t where
    eq: "OrderRepository_UpdateOrderAndPasteAccrual f db order OrderStatusProcessed amount =
           (r, db', t)"
    by (cases "OrderRepository_UpdateOrderAndPasteAccrual f db order OrderStatusProcessed
           amount")
  from PasteAccrual_cases [OF eq] show ?thesis
    using bal by (auto simp: Credit eq user_balance_credit)
next
  case (Debit f number amount userID)
  obtain r db' t where eq: "WithdrawalRepository_Create f db number amount userID = (r, db', t)"
    by (cases "WithdrawalRepository_Create f db number amount userID")
  from Create_cases [OF eq] show ?thesis
    using bal by (auto simp: Debit eq user_balance_debit split: go_result.splits sum.splits)
qed

lemma run_ledger_balance:
  "user_balance_table db u = Some b \<Longrightarrow> list_all credit_nonneg ops \<Longrightarrow> 0 \<le> balance b \<Longrightarrow>
   \<exists>b'. user_balance_table (run_ledger db ops) u = Some b'
        \<and> balance b' = balance b + credits_applied u db ops - withdrawals_applied u db ops
        \<and> withdrawals_sum b' = withdrawals_sum b + withdrawals_applied u db ops
        \<and> 0 \<le> balance b'"
proof (induction ops arbitrary: db b)
  case Nil
  then show ?case by simp
next
  case (Cons x xs)
  obtain applied db1 where step: "apply_ledger_op db x = (applied, db1)"
    by (cases "apply_ledger_op db x")
  from apply_ledger_op_balance [OF Cons.prems(1), of x] Cons.prems(2,3) step
  obtain b1 where b1: "user_balance_table db1 u = Some b1"
    and v1: "balance b1 = balance b + (if applied then credit_amount u x else 0)
               - (if applied then withdrawal_amount_of u x else 0)"
    and w1: "withdrawals_sum b1 =
               withdrawals_sum b + (if applied then withdrawal_amount_of u x else 0)"
    and n1: "0 \<le> balance b1"
    by auto
  from Cons.prems(2) have xs: "list_all credit_nonneg xs" by simp
  from Cons.IH [OF b1 xs n1] obtain b' where
    "user_balance_table (run_ledger db1 xs) u = Some b'"
    "balance b' = balance b1 + credits_applied u db1 xs - withdrawals_applied u db1 xs"
    "withdrawals_sum b' = withdrawals_sum b1 + withdrawals_applied u db1 xs"
    "0 \<le> balance b'"
    by blast
  with v1 w1 step show ?case by simp
qed

text \<open>
  Claim C5. A user's balance row starts at zero; credits
  (\<^verbatim>\<open>UpdateOrderAndPasteAccrual\<close>, with non-negative amounts) and withdrawals
  (\<^verbatim>\<open>WithdrawalRepository.Create\<close>), for any users, orders, amounts and fault schedules,
  run one after the other. After any number \<open>n\<close> of them the user's balance is the sum
  of the credits applied to the user minus the sum of the withdrawals applied, and it is
  not negative; the withdrawn sum is the sum of the withdrawals applied. Amounts are
  exact numbers here, and calls do not overlap.
\<close>

theorem ledger_invariant:
  assumes start: "user_balance_table db u = Some \<lparr>balance = 0, withdrawals_sum = 0\<rparr>"
    and nonneg: "list_all credit_nonneg ops"
    and point: "n \<le> length ops"
  shows "\<exists>b. user_balance_table (run_ledger db (take n ops)) u = Some b
          \<and> balance b =
              credits_applied u db (take n ops) - withdrawals_applied u db (take n ops)
          \<and> withdrawals_sum b = withdrawals_applied u db (take n ops)
          \<and> 0 \<le> balance b"
proof -
  have "list_all credit_nonneg (take n ops)"
    using nonneg by (auto simp: list_all_iff dest: in_set_takeD)
  from run_ledger_balance [OF start this] show ?thesis by simp
qed

theorem ledger_invariant_witness:
  "user_balance_table fresh_db 1 = Some \<lparr>balance = 0, withdrawals_sum = 0\<rparr>
   \<and> list_all credit_nonneg example_ops \<and> 5 \<le> length example_ops
   \<and> credits_applied 1 fresh_db (take 5 example_ops) = 500
   \<and> withdrawals_applied 1 fresh_db (take 5 example_ops) = 150
   \<and> map_option balance (user_balance_table (run_ledger fresh_db (take 5 example_ops)) 1) =
       Some 350"
proof -
  have s: "user_balance_table fresh_db 1 = Some \<lparr>balance = 0, withdrawals_sum = 0\<rparr>"
    by (simp add: fresh_db_simps)
  have n: "list_all credit_nonneg example_ops" by (simp add: example_ops_def)
  have l: "5 \<le> length example_ops" by (simp add: example_ops_def)
  have c: "credits_applied 1 fresh_db (take 5 example_ops) = 500"
    by (simp add: example_ops_def OrderRepository_UpdateOrderAndPasteAccrual_def
        WithdrawalRepository_Create_def no_faults_def fail_at_def Let_def example_order_def
        scan_balance_def insert_row_err_def tx_error_def rollback_return_def
        rollback_or_exit_def user_balance_credit user_balance_debit fresh_db_simps withdrawal_number_used_def
        next_withdrawal_id_def)
  have w: "withdrawals_applied 1 fresh_db (take 5 example_ops) = 150"
    by (simp add: example_ops_def OrderRepository_UpdateOrderAndPasteAccrual_def
        WithdrawalRepository_Create_def no_faults_def fail_at_def Let_def example_order_def
        scan_balance_def insert_row_err_def tx_error_def rollback_return_def
        rollback_or_exit_def user_balance_credit user_balance_debit fresh_db_simps withdrawal_number_used_def
        next_withdrawal_id_def)
  from ledger_invariant [OF s n l] c w show ?thesis using s n l by auto
qed

section \<open>Reconciliation of one order\<close>







text \<open>
  Claim C2 fails on the code for the status REGISTERED: the case has an empty body and a
  Go switch does not fall through, so the routine makes no call into the store and
  returns nil; the order keeps its status. (For the status PROCESSING the update to NEW
  is made.)
\<close>

theorem registered_leaves_order_untouched:
  "OrderService_UpdateOrderStatus
     (\<lambda>number. Return (Inr (st\<lparr>ext_Status := ExternalOrderStatusRegistered\<rparr>))) f1 f2 db order =
     (Return None, db)
   \<and> OrderService_UpdateOrderStatus
       (\<lambda>number. Return (Inr \<lparr>ext_Order = number, ext_Status = ExternalOrderStatusRegistered,
                              ext_Accrual = 0\<rparr>))
       no_faults no_faults example_db example_order = (Return None, example_db)
   \<and> status_of example_db (ID example_order) = Some OrderStatusProcessing
   \<and> OrderService_UpdateOrderStatus
       (\<lambda>number. Return (Inr (st\<lparr>ext_Status := ExternalOrderStatusProcessing\<rparr>)))
       no_faults f2 db order =
       (Return None, sql_update_status db OrderStatusNew (ID order))"
  by (simp add: OrderService_UpdateOrderStatus_def status_of_def example_db_simps
      example_order_def set_status_or_fail_def OrderRepository_UpdateOrderStatus_def
      AllOrderStatuses_def no_faults_def)

section \<open>The accrual repository\<close>

lemma Atoi_5: "Atoi ''5'' = Inr 5"
  by (simp add: Atoi_def digit_of_def Let_def)

lemma Atoi_order: "Atoi ''79927398713'' = Inr 79927398713"
  by (simp add: Atoi_def digit_of_def Let_def)

lemma CanDoRequest_new: "AccrualRepository_CanDoRequest (NewAccrualRepository address) now"
  by (simp add: AccrualRepository_CanDoRequest_def NewAccrualRepository_def IsZero_def)

text \<open>
  Claim C3 fails on the code. \<^verbatim>\<open>GetOrder\<close> has a value receiver, so the deadline it
  assigns after a 429 is written to a copy: the caller's repository is never changed by a
  call, a repository built by \<^verbatim>\<open>NewAccrualRepository\<close> sends every request at once,
  and after a 429 with \<^verbatim>\<open>Retry-After: 5\<close> observed at 1000.001 s a second call made
  at 1001 s goes out at 1001 s, within the 5 seconds. The deadline written to the copy is
  5 nanoseconds after the observation (\<^verbatim>\<open>time.Duration(5)\<close>), not 5 seconds.
\<close>

theorem cooldown_not_recorded:
  "snd (AccrualRepository_GetOrder a now now_resp net number) = a
   \<and> fst (fst (AccrualRepository_GetOrder (NewAccrualRepository address) now now_resp net number))
       = now
   \<and> AccrualRepository_GetOrder example_repository 1000000000000 1000001000000
       rate_limiting_net ''79927398713'' =
       ((1000000000000, Return (Inl ErrTooManyRequests)), example_repository)
   \<and> retryAfter example_repository = 0
   \<and> AccrualRepository_GetOrder example_repository 1001000000000 1001001000000
       rate_limiting_net ''79927398713'' =
       ((1001000000000, Return (Inl ErrTooManyRequests)), example_repository)
   \<and> (1001000000000 :: int) < 1000001000000 + 5 * 1000000000
   \<and> retryAfter (snd (snd (GetOrder_body example_repository 1000000000000 1000001000000
        rate_limiting_net ''79927398713''))) = 1000001000000 + 5"
proof -
  have 1: "snd (AccrualRepository_GetOrder a now now_resp net number) = a"
    by (simp add: AccrualRepository_GetOrder_def split: prod.splits)
  have 2: "fst (fst (AccrualRepository_GetOrder (NewAccrualRepository address) now now_resp net number)) = now"
    by (simp add: AccrualRepository_GetOrder_def GetOrder_body_def CanDoRequest_new Let_def
        split: prod.splits http_result.splits list.splits sum.splits)
  have b: "GetOrder_body example_repository t1 t2 rate_limiting_net ''79927398713'' =
      (t1, Return (Inl ErrTooManyRequests), example_repository\<lparr>retryAfter := t2 + 5\<rparr>)" for t1 t2
    by (simp add: GetOrder_body_def example_repository_def CanDoRequest_new Let_def
        rate_limiting_net_def header_values_def Atoi_5)
  have 3: "AccrualRepository_GetOrder example_repository t1 t2 rate_limiting_net ''79927398713'' =
       ((t1, Return (Inl ErrTooManyRequests)), example_repository)" for t1 t2
    by (simp add: AccrualRepository_GetOrder_def b)
  have 4: "retryAfter example_repository = 0"
    by (simp add: example_repository_def NewAccrualRepository_def)
  from 1 2 3 4 b show ?thesis by simp
qed

text \<open>
  Claim C9. A call of \<^verbatim>\<open>GetOrder\<close> (on a repository with its configuration and
  client) panics exactly when the response has status 429 and no value of the header
  \<^verbatim>\<open>Retry-After\<close>: the code indexes the empty slice. With at least one value, and
  for every other response or failure of the request, it returns a value or an error.
\<close>

theorem GetOrder_panics_iff:
  "(snd (fst (AccrualRepository_GetOrder a now now_resp net number)) = Panic) =
     (\<exists>header order.
        net (AccrualSystemAddress a @ ''api/orders/'' @ number) = Response 429 header order
        \<and> header_values header ''Retry-After'' = [])
   \<and> snd (fst (AccrualRepository_GetOrder a now now_resp net number)) \<noteq> Exit"
  by (auto simp: AccrualRepository_GetOrder_def GetOrder_body_def Let_def
      split: prod.splits http_result.splits list.splits sum.splits if_splits)

theorem GetOrder_panics_iff_witness:
  "snd (fst (AccrualRepository_GetOrder example_repository 0 0
       (\<lambda>url. Response 429 Map.empty ExternalOrder_zero) ''79927398713'')) = Panic
   \<and> snd (fst (AccrualRepository_GetOrder example_repository 0 0
       rate_limiting_net ''79927398713'')) = Return (Inl ErrTooManyRequests)"
proof -
  have "snd (fst (AccrualRepository_GetOrder example_repository 0 0
       rate_limiting_net ''79927398713'')) \<noteq> Panic"
    using GetOrder_panics_iff [of example_repository 0 0 rate_limiting_net "''79927398713''"]
    by (simp add: rate_limiting_net_def header_values_def)
  moreover have "snd (fst (AccrualRepository_GetOrder example_repository 0 0
       rate_limiting_net ''79927398713'')) = Return (Inl ErrTooManyRequests)"
    by (simp add: AccrualRepository_GetOrder_def GetOrder_body_def example_repository_def CanDoRequest_new Let_def
        rate_limiting_net_def header_values_def Atoi_5)
  moreover have "snd (fst (AccrualRepository_GetOrder example_repository 0 0
       (\<lambda>url. Response 429 Map.empty ExternalOrder_zero) ''79927398713'')) = Panic"
    using GetOrder_panics_iff [of example_repository 0 0 "\<lambda>url. Response 429 Map.empty ExternalOrder_zero" "''79927398713''"]
    by (simp add: header_values_def)
  ultimately show ?thesis by simp
qed


section \<open>The withdrawal handler and an amount of zero\<close>

text \<open>
  Claim C10. For a JSON request that decodes, has a numeric order number the Luhn check
  accepts, an authenticated user and the amount 0: the handler writes the 422 error
  response and goes on; it calls the withdrawal service with the amount 0, and when that
  call returns it writes a second status code. When the user has a non-negative balance,
  the order number is new and the driver does not fail, the withdrawal of amount 0 is
  created and the second status code is 200.
\<close>

theorem zero_amount_withdrawal_not_rejected:
  assumes ct: "Contains (ContentType request) ''application/json''"
    and body: "Body request = Some requestData"
    and zero: "req_Amount requestData = 0"
    and num: "Atoi (req_Order requestData) = Inr n"
    and luhn: "luhn_Valid n"
    and user: "ctx_UserID request = Some userID"
  shows "(\<exists>rest outcome.
            CreateWithdrawalHandler_ServeHTTP luhn_Valid f db request =
              (http_Error ''The provided payload does not contain a valid withdrawal amount''
                 StatusUnprocessableEntity @ rest,
               snd (WithdrawalService_Create f db (req_Order requestData) 0 userID),
               outcome)
            \<and> ((\<exists>r. fst (WithdrawalService_Create f db (req_Order requestData) 0 userID) =
                      Return r) \<longrightarrow>
                 (\<exists>code more. rest = WriteHeader code # more) \<and> outcome = Return ()))
       \<and> (\<forall>row. user_balance_table db userID = Some row \<and> 0 \<le> balance row
              \<and> \<not> withdrawal_number_used db (req_Order requestData) \<longrightarrow>
            CreateWithdrawalHandler_ServeHTTP luhn_Valid no_faults db request =
              (http_Error ''The provided payload does not contain a valid withdrawal amount''
                 StatusUnprocessableEntity @ [WriteHeader StatusOK],
               sql_insert_withdrawal (sql_debit_balance db 0 userID) 0 userID
                 (req_Order requestData),
               Return ()))"
proof -
  obtain r d where s: "WithdrawalService_Create f db (req_Order requestData) 0 userID = (r, d)"
    by (cases "WithdrawalService_Create f db (req_Order requestData) 0 userID")
  have 1: "\<exists>rest outcome.
            CreateWithdrawalHandler_ServeHTTP luhn_Valid f db request =
              (http_Error ''The provided payload does not contain a valid withdrawal amount''
                 StatusUnprocessableEntity @ rest,
               snd (WithdrawalService_Create f db (req_Order requestData) 0 userID),
               outcome)
            \<and> ((\<exists>r. fst (WithdrawalService_Create f db (req_Order requestData) 0 userID) =
                      Return r) \<longrightarrow>
                 (\<exists>code more. rest = WriteHeader code # more) \<and> outcome = Return ())"
    using ct body zero num luhn user s
    by (auto simp: CreateWithdrawalHandler_ServeHTTP_def Let_def http_Error_def
        split: go_result.splits sum.splits)
  have 2: "CreateWithdrawalHandler_ServeHTTP luhn_Valid no_faults db request =
              (http_Error ''The provided payload does not contain a valid withdrawal amount''
                 StatusUnprocessableEntity @ [WriteHeader StatusOK],
               sql_insert_withdrawal (sql_debit_balance db 0 userID) 0 userID
                 (req_Order requestData),
               Return ())"
    if "user_balance_table db userID = Some row" "0 \<le> balance row"
       "\<not> withdrawal_number_used db (req_Order requestData)" for row
  proof -
    have "\<not> withdrawal_number_used (sql_debit_balance db 0 userID) (req_Order requestData)"
      using that(3) by (simp add: withdrawal_number_used_def)
    then have "WithdrawalRepository_Create no_faults db (req_Order requestData) 0 userID =
       (Return (Inr (next_withdrawal_id (sql_debit_balance db 0 userID))),
        sql_insert_withdrawal (sql_debit_balance db 0 userID) 0 userID (req_Order requestData),
        Committed)"
      using that(1,2)
      by (simp add: WithdrawalRepository_Create_def no_faults_def scan_balance_def
          insert_row_err_def Let_def)
    then show ?thesis
      using ct body zero num luhn user
      by (simp add: CreateWithdrawalHandler_ServeHTTP_def Let_def WithdrawalService_Create_def)
  qed
  from 1 2 show ?thesis by blast
qed

theorem zero_amount_withdrawal_not_rejected_witness:
  "Contains (ContentType zero_amount_request) ''application/json''
   \<and> Body zero_amount_request = Some \<lparr>req_Order = ''79927398713'', req_Amount = 0\<rparr>
   \<and> Atoi ''79927398713'' = Inr 79927398713
   \<and> ctx_UserID zero_amount_request = Some 1
   \<and> user_balance_table example_db 1 = Some \<lparr>balance = 100, withdrawals_sum = 20\<rparr>
   \<and> \<not> withdrawal_number_used example_db ''79927398713''
   \<and> fst (CreateWithdrawalHandler_ServeHTTP luhn_mod10 no_faults example_db
            zero_amount_request) =
       [WriteHeader StatusUnprocessableEntity,
        Write (''The provided payload does not contain a valid withdrawal amount'' @ [CHR 0x0A]),
        WriteHeader StatusOK]
   \<and> withdrawal_table
       (fst (snd (CreateWithdrawalHandler_ServeHTTP luhn_mod10 no_faults example_db
                    zero_amount_request))) =
       withdrawal_table example_db @
         [\<lparr>withdrawal_id = 2, withdrawal_amount = 0, withdrawal_user_id = 1,
           withdrawal_order_number = ''79927398713''\<rparr>]"
proof -
  have ct: "Contains (ContentType zero_amount_request) ''application/json''"
    by (simp add: zero_amount_request_def)
  have body: "Body zero_amount_request = Some \<lparr>req_Order = ''79927398713'', req_Amount = 0\<rparr>"
    by (simp add: zero_amount_request_def)
  have zero: "req_Amount \<lparr>req_Order = ''79927398713'', req_Amount = 0\<rparr> = 0" by simp
  have num: "Atoi (req_Order \<lparr>req_Order = ''79927398713'', req_Amount = 0\<rparr>) = Inr 79927398713"
    by (simp add: Atoi_order)
  have luhn: "luhn_mod10 79927398713"
    by (simp add: luhn_mod10_def luhn_checksum.simps [of _ "numeral _"]
        luhn_checksum.simps [of _ 0] Let_def)
  have user: "ctx_UserID zero_amount_request = Some 1"
    by (simp add: zero_amount_request_def)
  have b: "user_balance_table example_db 1 = Some \<lparr>balance = 100, withdrawals_sum = 20\<rparr>"
    by (simp add: example_db_simps)
  have fresh: "\<not> withdrawal_number_used example_db ''79927398713''"
    by (simp add: withdrawal_number_used_def example_db_simps)
  from zero_amount_withdrawal_not_rejected
      [where luhn_Valid = luhn_mod10 and f = no_faults and db = example_db,
       OF ct body zero num luhn user]
    b fresh
  have "CreateWithdrawalHandler_ServeHTTP luhn_mod10 no_faults example_db zero_amount_request =
     (http_Error ''The provided payload does not contain a valid withdrawal amount''
                 StatusUnprocessableEntity @ [WriteHeader StatusOK],
               sql_insert_withdrawal (sql_debit_balance example_db 0 1) 0 1 ''79927398713'',
               Return ())"
    by simp
  with ct body num user b fresh show ?thesis
    by (simp add: http_Error_def example_db_simps Atoi_order)
qed

end
